theory Spec2Isabelle
  imports Complex_Main
begin

section \<open>Data model of the virtual glasses try-on\<close>

text \<open>
  JavaScript numbers are modelled as reals. The landmark geometry (eye centres, eye
  distance, angle, scale and clamps) is computed exactly; the division and product of
  line 307 and the smoothing blend of lines 322-326 round every operation to the nearest
  IEEE double. NaN, infinities and signed zeros are outside the model.

  A cell of the landmark array \<^verbatim>\<open>face.scaledMesh\<close> is either \<^verbatim>\<open>undefined\<close> or a point
  array of which the code reads the entries \<^verbatim>\<open>[0]\<close> and \<^verbatim>\<open>[1]\<close> only.
\<close>

datatype landmark = Undefined | Point real real

type_synonym landmarks = "landmark list"

text \<open>An indexed read of a JavaScript array: out of range it gives \<^verbatim>\<open>undefined\<close>.\<close>

definition landmarkAt :: "landmarks \<Rightarrow> nat \<Rightarrow> landmark" where
  "landmarkAt lm i = (if i < length lm then lm ! i else Undefined)"

text \<open>Reading a property of \<^verbatim>\<open>undefined\<close> throws a TypeError.\<close>

datatype error = TypeError | DetectionError

text \<open>
  \<^verbatim>\<open>this.lastGlassesPosition\<close>, an object \<^verbatim>\<open>{ x, y, width, height, angle }\<close>
  (the fields \<^verbatim>\<open>x\<close> and \<^verbatim>\<open>y\<close> are named \<open>pos_x\<close> and \<open>pos_y\<close> here).
\<close>

record Placement =
  pos_x :: real
  pos_y :: real
  width :: real
  height :: real
  angle :: real

text \<open>\<^verbatim>\<open>this.glassesImg\<close>: the image element with its \<^verbatim>\<open>complete\<close> flag and pixel size.\<close>

record image =
  src :: string
  complete :: bool
  img_width :: real
  img_height :: real

text \<open>The calls made on the 2D drawing context, in the order they are made.\<close>

datatype canvas_op =
    ClearRect real real real real
  | Save
  | GlobalAlpha real
  | GlobalCompositeOperation string
  | Translate real real
  | Rotate real
  | DrawImage image real real real real
  | Restore

text \<open>
  The fields of \<^verbatim>\<open>VirtualGlassesTryOn\<close> the detection loop and the style selection use.
  \<open>webcamActive\<close> is \<^verbatim>\<open>this.webcamUI.isActive()\<close>, \<open>model\<close> says whether \<^verbatim>\<open>this.model\<close>
  is set, \<open>statusText\<close> is what \<^verbatim>\<open>updateStatus\<close> last wrote and \<open>faceCount\<close> what
  \<^verbatim>\<open>updateFaceCount\<close> last received.
\<close>

record app =
  webcamActive :: bool
  model :: bool
  animationId :: "nat option"
  currentGlassesStyle :: string
  currentGlassesImage :: string
  glassesImg :: "image option"
  isModelLoaded :: bool
  lastGlassesPosition :: Placement
  statusText :: string
  faceCount :: nat

text \<open>The constructor's value of \<^verbatim>\<open>lastGlassesPosition\<close>.\<close>

definition sentinel :: Placement where
  "sentinel = \<lparr>pos_x = 0, pos_y = 0, width = 0, height = 0, angle = 0\<rparr>"

section \<open>Landmark extraction (\<^verbatim>\<open>drawGlassesOnFace\<close>, first half)\<close>

type_synonym point = "real \<times> real"

text \<open>
  The eye centre of one eye. The inner and outer corner have been tested before; the top
  landmark has not, and \<^verbatim>\<open>leftEyeTop[1]\<close> throws when it is \<^verbatim>\<open>undefined\<close>.
\<close>

fun eyeCenter :: "landmark \<Rightarrow> landmark \<Rightarrow> landmark \<Rightarrow> error + point" where
  "eyeCenter (Point ix iy) (Point ox oy) (Point tx ty) =
     Inr ((ix + ox) / 2, (iy + oy + ty) / 3)"
| "eyeCenter _ _ _ = Inl TypeError"

text \<open>
  The reads of the eight landmarks, the guard on the four eye corners and the two eye
  centres. \<open>Inr None\<close> is the early \<^verbatim>\<open>return\<close> of the guard, \<open>Inl e\<close> a thrown exception.
\<close>

definition extractEyeCenters :: "landmarks \<Rightarrow> error + (point \<times> point) option" where
  "extractEyeCenters lm =
     (let leftEyeInner = landmarkAt lm 133;
          rightEyeInner = landmarkAt lm 362;
          leftEyeOuter = landmarkAt lm 33;
          rightEyeOuter = landmarkAt lm 263;
          leftEyeTop = landmarkAt lm 159;
          rightEyeTop = landmarkAt lm 386;
          noseTip = landmarkAt lm 1;
          noseBridge = landmarkAt lm 168
      in if leftEyeInner = Undefined \<or> rightEyeInner = Undefined
            \<or> leftEyeOuter = Undefined \<or> rightEyeOuter = Undefined
         then Inr None
         else (case eyeCenter leftEyeInner leftEyeOuter leftEyeTop of
                 Inl e \<Rightarrow> Inl e
               | Inr leftEyeCenter \<Rightarrow>
                   (case eyeCenter rightEyeInner rightEyeOuter rightEyeTop of
                      Inl e \<Rightarrow> Inl e
                    | Inr rightEyeCenter \<Rightarrow> Inr (Some (leftEyeCenter, rightEyeCenter)))))"

section \<open>Double arithmetic\<close>

text \<open>
  \<open>roundDouble\<close> is the rounding of IEEE 754 binary64: the nearest number with a 53-bit
  significand, ties to the even significand, with gradual underflow (below \<open>2 powi (- 1022)\<close>
  the spacing stays \<open>2 powi (- 1074)\<close>). A JavaScript operation \<^verbatim>\<open>x op y\<close> on doubles is
  \<open>roundDouble\<close> of the exact result. Results beyond the largest double, infinities, NaN and
  the sign of zero are not represented.
\<close>

definition binade :: "real \<Rightarrow> int" where
  "binade x = max \<lfloor>log 2 \<bar>x\<bar>\<rfloor> (- 1022)"

definition ulp :: "real \<Rightarrow> real" where
  "ulp x = 2 powi (binade x - 52)"

definition roundEven :: "real \<Rightarrow> int" where
  "roundEven y =
     (let f = \<lfloor>y\<rfloor>; d = y - of_int f
      in if d < 1 / 2 then f else if 1 / 2 < d then f + 1 else if even f then f else f + 1)"

definition roundDouble :: "real \<Rightarrow> real" where
  "roundDouble x = (if x = 0 then 0 else ulp x * of_int (roundEven (x / ulp x)))"


section \<open>Placement (\<^verbatim>\<open>drawGlassesOnFace\<close>, second half)\<close>

definition glassesX :: "point \<Rightarrow> point \<Rightarrow> real" where
  "glassesX l r = (fst l + fst r) / 2"

definition glassesY :: "point \<Rightarrow> point \<Rightarrow> real" where
  "glassesY l r = (snd l + snd r) / 2 - 5"

definition eyeDistance :: "point \<Rightarrow> point \<Rightarrow> real" where
  "eyeDistance l r = sqrt ((fst r - fst l) ^ 2 + (snd r - snd l) ^ 2)"

text \<open>\<^verbatim>\<open>Math.atan2(y, x)\<close> on the reals.\<close>

definition atan2 :: "real \<Rightarrow> real \<Rightarrow> real" where
  "atan2 y x =
     (if 0 < x then arctan (y / x)
      else if x < 0 then (if 0 \<le> y then arctan (y / x) + pi else arctan (y / x) - pi)
      else if 0 < y then pi / 2
      else if y < 0 then - (pi / 2)
      else 0)"

definition rawAngle :: "point \<Rightarrow> point \<Rightarrow> real" where
  "rawAngle l r = atan2 (snd r - snd l) (fst r - fst l)"

definition faceAngle :: "point \<Rightarrow> point \<Rightarrow> real" where
  "faceAngle l r = max (- 0.1) (min 0.1 (rawAngle l r))"

definition glassesScale :: "point \<Rightarrow> point \<Rightarrow> real" where
  "glassesScale l r = eyeDistance l r / 80"

definition minWidth :: "point \<Rightarrow> point \<Rightarrow> real" where
  "minWidth l r = eyeDistance l r * 1.8"

definition maxWidth :: "point \<Rightarrow> point \<Rightarrow> real" where
  "maxWidth l r = eyeDistance l r * 2.5"

text \<open>
  The width is the scaled image width, clamped; the height is recomputed from the clamped
  width (the first value of \<^verbatim>\<open>finalHeight\<close>, the scaled image height, is overwritten
  before it is read). Line 307 divides the image height by the image width and multiplies
  the clamped width by the quotient; both operations are rounded. An image of width 0 makes
  the quotient NaN or infinite in JavaScript and 0 here, so every fact that involves the
  height takes the image width positive.
\<close>

definition finalWidth :: "image \<Rightarrow> point \<Rightarrow> point \<Rightarrow> real" where
  "finalWidth img l r =
     max (minWidth l r) (min (maxWidth l r) (img_width img * glassesScale l r))"

definition nativeRatio :: "image \<Rightarrow> real" where
  "nativeRatio img = roundDouble (img_height img / img_width img)"

definition finalHeight :: "image \<Rightarrow> point \<Rightarrow> point \<Rightarrow> real" where
  "finalHeight img l r = roundDouble (finalWidth img l r * nativeRatio img)"

text \<open>The values the source computes before smoothing.\<close>

definition rawPlacement :: "image \<Rightarrow> point \<Rightarrow> point \<Rightarrow> Placement" where
  "rawPlacement img l r =
     \<lparr>pos_x = glassesX l r, pos_y = glassesY l r,
      width = finalWidth img l r, height = finalHeight img l r,
      angle = faceAngle l r\<rparr>"

text \<open>
  The local constant of \<^verbatim>\<open>drawGlassesOnFace\<close>, the double nearest to 0.6; the field
  \<^verbatim>\<open>this.smoothingFactor = 0.7\<close> of the constructor is never read.
\<close>

definition smoothingFactor :: real where
  "smoothingFactor = roundDouble 0.6"

text \<open>
  One line of the blend, \<^verbatim>\<open>last * smoothingFactor + raw * (1 - smoothingFactor)\<close>: two
  products, a difference and a sum, each rounded to a double.
\<close>

definition blend :: "real \<Rightarrow> real \<Rightarrow> real" where
  "blend p r =
     roundDouble (roundDouble (p * smoothingFactor)
                  + roundDouble (r * roundDouble (1 - smoothingFactor)))"

definition smoothed :: "Placement \<Rightarrow> Placement \<Rightarrow> Placement" where
  "smoothed prev raw =
     \<lparr>pos_x = blend (pos_x prev) (pos_x raw),
      pos_y = blend (pos_y prev) (pos_y raw),
      width = blend (width prev) (width raw),
      height = blend (height prev) (height raw),
      angle = blend (angle prev) (angle raw)\<rparr>"

text \<open>
  The \<^verbatim>\<open>if (this.lastGlassesPosition.x === 0)\<close> branch overwrites the stored placement
  with the raw one; \<open>anchor\<close> is the stored placement after that branch. The blend below
  it runs on every frame, also on that one.
\<close>

definition anchor :: "Placement \<Rightarrow> Placement \<Rightarrow> Placement" where
  "anchor prev raw = (if pos_x prev = 0 then raw else prev)"

definition solvePlacement :: "image \<Rightarrow> Placement \<Rightarrow> point \<Rightarrow> point \<Rightarrow> Placement" where
  "solvePlacement img prev l r =
     (let raw = rawPlacement img l r
      in smoothed (anchor prev raw) raw)"

definition drawOps :: "image \<Rightarrow> Placement \<Rightarrow> canvas_op list" where
  "drawOps img p =
     [Save, GlobalAlpha 0.9, GlobalCompositeOperation ''source-over'',
      Translate (pos_x p) (pos_y p), Rotate (angle p),
      DrawImage img (- width p / 2) (- height p / 2) (width p) (height p),
      Restore]"

definition drawGlassesOnFace :: "app \<Rightarrow> landmarks \<Rightarrow> error + (app \<times> canvas_op list)" where
  "drawGlassesOnFace a lm =
     (case glassesImg a of
        None \<Rightarrow> Inr (a, [])
      | Some img \<Rightarrow>
          if \<not> complete img then Inr (a, [])
          else (case extractEyeCenters lm of
                  Inl e \<Rightarrow> Inl e
                | Inr None \<Rightarrow> Inr (a, [])
                | Inr (Some (l, r)) \<Rightarrow>
                    (let p = solvePlacement img (lastGlassesPosition a) l r
                     in Inr (a\<lparr>lastGlassesPosition := p\<rparr>, drawOps img p))))"

section \<open>The detection loop\<close>

text \<open>
  What one tick receives from its collaborators: whether video, canvas and context exist,
  the canvas size, the result of \<^verbatim>\<open>estimateFaces\<close> (a list of faces, each with its
  \<^verbatim>\<open>scaledMesh\<close> if it has one, or a thrown error) and the handle that
  \<^verbatim>\<open>requestAnimationFrame\<close> returns.
\<close>

type_synonym face = "landmarks option"

record frame =
  surfaceReady :: bool
  canvasWidth :: real
  canvasHeight :: real
  faces :: "error + face list"
  nextId :: nat

text \<open>
  The \<^verbatim>\<open>faces.forEach\<close> of \<^verbatim>\<open>detectFaces\<close>: an exception of one face ends the loop,
  and what earlier faces stored and drew stays.
\<close>

fun forEachFace :: "app \<Rightarrow> face list \<Rightarrow> app \<times> canvas_op list \<times> error option" where
  "forEachFace a [] = (a, [], None)"
| "forEachFace a (f # fs) =
     (case f of
        None \<Rightarrow> forEachFace a fs
      | Some lm \<Rightarrow>
          if length lm > 168
          then (case drawGlassesOnFace a lm of
                  Inl e \<Rightarrow> (a, [], Some e)
                | Inr (a', ops) \<Rightarrow>
                    (case forEachFace a' fs of
                       (a'', ops', e) \<Rightarrow> (a'', ops @ ops', e)))
          else forEachFace a fs)"

text \<open>The body of the \<^verbatim>\<open>try\<close> block after the surface check; the \<^verbatim>\<open>catch\<close> only logs.\<close>

definition tryBlock :: "app \<Rightarrow> frame \<Rightarrow> app \<times> canvas_op list" where
  "tryBlock a fr =
     (case faces fr of
        Inl e \<Rightarrow> (a, [])
      | Inr fs \<Rightarrow>
          (case forEachFace a fs of
             (a', ops, Some e) \<Rightarrow>
               (a', ClearRect 0 0 (canvasWidth fr) (canvasHeight fr) # ops)
           | (a', ops, None) \<Rightarrow>
               (a'\<lparr>faceCount := length fs\<rparr>,
                ClearRect 0 0 (canvasWidth fr) (canvasHeight fr) # ops)))"

definition detectFaces :: "app \<Rightarrow> frame \<Rightarrow> app \<times> canvas_op list" where
  "detectFaces a fr =
     (if \<not> webcamActive a \<or> \<not> model a then (a, [])
      else if \<not> surfaceReady fr then (a, [])
      else (case tryBlock a fr of
              (a', ops) \<Rightarrow>
                (if webcamActive a' then (a'\<lparr>animationId := Some (nextId fr)\<rparr>, ops)
                 else (a', ops))))"

definition updateStatus :: "string \<Rightarrow> app \<Rightarrow> app" where
  "updateStatus message a = a\<lparr>statusText := message\<rparr>"

definition startFaceDetection :: "app \<Rightarrow> frame \<Rightarrow> app \<times> canvas_op list" where
  "startFaceDetection a fr =
     (if \<not> webcamActive a \<or> \<not> model a then (a, [])
      else (case detectFaces a fr of
              (a', ops) \<Rightarrow> (updateStatus ''Face detection running'' a', ops)))"

text \<open>\<^verbatim>\<open>if (this.animationId)\<close> is false for \<^verbatim>\<open>null\<close> and for the handle 0.\<close>

definition stopFaceDetection :: "app \<Rightarrow> app" where
  "stopFaceDetection a =
     (case animationId a of
        None \<Rightarrow> a
      | Some n \<Rightarrow> if n = 0 then a else a\<lparr>animationId := None\<rparr>)"

section \<open>Style selection\<close>

text \<open>The clicked option: its \<^verbatim>\<open>data-style\<close>, \<^verbatim>\<open>data-image\<close> and label text.\<close>

record element =
  dataStyle :: string
  dataImage :: string
  labelText :: string

text \<open>
  \<^verbatim>\<open>loadGlassesImage\<close> replaces \<^verbatim>\<open>this.glassesImg\<close> by a new image element; \<open>newImage\<close>
  is the element the browser creates for a source.
\<close>

definition loadGlassesImage :: "(string \<Rightarrow> image) \<Rightarrow> string \<Rightarrow> app \<Rightarrow> app" where
  "loadGlassesImage newImage imageSrc a = a\<lparr>glassesImg := Some (newImage imageSrc)\<rparr>"

definition selectGlasses :: "(string \<Rightarrow> image) \<Rightarrow> element \<Rightarrow> app \<Rightarrow> app" where
  "selectGlasses newImage el a =
     (let a1 = a\<lparr>currentGlassesStyle := dataStyle el, currentGlassesImage := dataImage el\<rparr>;
          a2 = loadGlassesImage newImage (currentGlassesImage a1) a1
      in updateStatus (''Selected: '' @ labelText el @ '' glasses'') a2)"

text \<open>
  The constructor with its \<^verbatim>\<open>init()\<close>: the fields' first values, and the first overlay
  image requested by \<^verbatim>\<open>preloadGlassesImages\<close>.
\<close>

definition constructor :: "(string \<Rightarrow> image) \<Rightarrow> app" where
  "constructor newImage =
     updateStatus ''Ready - Click Start Camera''
       (loadGlassesImage newImage ''3dmodel/glasses-04/glasses_04.png''
          \<lparr>webcamActive = False, model = False, animationId = None,
           currentGlassesStyle = ''glasses-04'',
           currentGlassesImage = ''3dmodel/glasses-04/glasses_04.png'',
           glassesImg = None, isModelLoaded = False,
           lastGlassesPosition = sentinel, statusText = [], faceCount = 0\<rparr>)"

section \<open>Runs of the loop\<close>





section \<open>Concrete inputs\<close>

text \<open>A mesh of 468 landmarks whose eye centres are (100, 200) and (140, 200).\<close>

definition exampleLandmarks :: landmarks where
  "exampleLandmarks =
     (replicate 468 (Point 0 0))
       [133 := Point 110 199, 33 := Point 90 201, 159 := Point 100 200,
        362 := Point 130 201, 263 := Point 150 199, 386 := Point 140 200]"


definition exampleImage :: image where
  "exampleImage =
     \<lparr>src = ''3dmodel/glasses-04/glasses_04.png'', complete = True,
      img_width = 200, img_height = 80\<rparr>"

text \<open>The application after the camera and the model have been started.\<close>

definition exampleApp :: app where
  "exampleApp =
     (constructor (\<lambda>s. exampleImage))
       \<lparr>webcamActive := True, model := True, isModelLoaded := True\<rparr>"

definition exampleFrame :: "landmarks \<Rightarrow> frame" where
  "exampleFrame lm =
     \<lparr>surfaceReady = True, canvasWidth = 640, canvasHeight = 480,
      faces = Inr [Some lm], nextId = 1\<rparr>"

text \<open>A mesh of 169 landmarks whose index 159 is \<^verbatim>\<open>undefined\<close>.\<close>

definition sparseLandmarks :: landmarks where
  "sparseLandmarks = (replicate 169 (Point 50 60))[159 := Undefined]"


text \<open>The application after one frame that showed \<open>exampleLandmarks\<close>.\<close>

definition afterExampleFrame :: app where
  "afterExampleFrame = fst (detectFaces exampleApp (exampleFrame exampleLandmarks))"

text \<open>A frame in which no face was found.\<close>

definition noFaceFrame :: frame where
  "noFaceFrame =
     \<lparr>surfaceReady = True, canvasWidth = 640, canvasHeight = 480,
      faces = Inr [], nextId = 2\<rparr>"


text \<open>A style option of the page.\<close>

definition exampleElement :: element where
  "exampleElement =
     \<lparr>dataStyle = ''glasses-01'', dataImage = ''3dmodel/glasses-01/glasses_01.png'',
      labelText = ''Classic''\<rparr>"




definition edgeLandmarks :: landmarks where
  "edgeLandmarks =
     (replicate 468 (Point 0 0))
       [133 := Point (6136154492292301 / 70368744177664) 199,
        33 := Point (6136154492292301 / 70368744177664) 201,
        159 := Point (6136154492292301 / 70368744177664) 200,
        362 := Point (8950904259398861 / 70368744177664) 201,
        263 := Point (8950904259398861 / 70368744177664) 199,
        386 := Point (8950904259398861 / 70368744177664) 200]"



section \<open>Auxiliary facts\<close>

subsection \<open>Rounding to a double\<close>

lemma powr_of_int_2: "(2::real) powr (of_int e) = 2 powi e"
  by (simp add: powr_real_of_int power_int_def power_one_over inverse_eq_divide)

lemma binade_eval:
  assumes "2 powi e \<le> \<bar>x\<bar>" "\<bar>x\<bar> < 2 powi (e + 1)" "- 1022 \<le> e"
  shows "binade x = e"
proof -
  have pos: "0 < \<bar>x\<bar>" using assms(1) zero_less_power_int[of "2::real" e] by linarith
  have p1: "(2::real) powr (real_of_int e + 1) = 2 powi (e + 1)"
    using powr_of_int_2[of "e + 1"] by simp
  have "\<lfloor>log 2 \<bar>x\<bar>\<rfloor> = e"
    unfolding floor_log_eq_powr_iff[OF pos, of 2 e, simplified] powr_of_int_2 p1
    using assms(1,2) by simp
  then show ?thesis using assms(3) by (simp add: binade_def)
qed

lemma roundDouble_eval:
  assumes "2 powi e \<le> \<bar>x\<bar>" "\<bar>x\<bar> < 2 powi (e + 1)" "- 1022 \<le> e"
  shows "roundDouble x = 2 powi (e - 52) * of_int (roundEven (x / 2 powi (e - 52)))"
proof -
  have "0 < \<bar>x\<bar>" using assms(1) zero_less_power_int[of "2::real" e] by linarith
  then have "x \<noteq> 0" by simp
  then show ?thesis by (simp add: roundDouble_def ulp_def binade_eval[OF assms])
qed







subsection \<open>The blend and its distance from the exact blend\<close>

lemma smoothingFactor_val: "smoothingFactor = 5404319552844595 / 9007199254740992"
  unfolding smoothingFactor_def
  by (subst roundDouble_eval[of "-1"]) (simp_all add: roundEven_def Let_def)

lemma oneMinusFactor_val:
  "roundDouble (1 - 5404319552844595 / 9007199254740992)
     = 3602879701896397 / 9007199254740992"
  by (subst roundDouble_eval[of "-2"]) (simp_all add: roundEven_def Let_def)

lemma blend_unfold:
  "blend p r =
     roundDouble (roundDouble (p * (5404319552844595 / 9007199254740992))
                  + roundDouble (r * (3602879701896397 / 9007199254740992)))"
  by (simp only: blend_def smoothingFactor_val oneMinusFactor_val)






lemma blend_zero: "blend 0 0 = 0"
  by (simp add: blend_def roundDouble_def)

subsection \<open>Blends of concrete doubles\<close>

lemma blend_120: "blend 120 120 = 120"
proof -
  have a: "roundDouble (120 * (5404319552844595 / 9007199254740992)) = 72"
    by (subst roundDouble_eval[of "6"]) (simp_all add: roundEven_def Let_def)
  have b: "roundDouble (120 * (3602879701896397 / 9007199254740992)) = 48"
    by (subst roundDouble_eval[of "5"]) (simp_all add: roundEven_def Let_def)
  have s: "roundDouble (72 + 48) = 120"
    by (subst roundDouble_eval[of "6"]) (simp_all add: roundEven_def Let_def)
  show ?thesis by (simp only: blend_unfold a b s)
qed

lemma blend_195: "blend 195 195 = 195"
proof -
  have a: "roundDouble (195 * (5404319552844595 / 9007199254740992)) = 117"
    by (subst roundDouble_eval[of "6"]) (simp_all add: roundEven_def Let_def)
  have b: "roundDouble (195 * (3602879701896397 / 9007199254740992)) = 78"
    by (subst roundDouble_eval[of "6"]) (simp_all add: roundEven_def Let_def)
  have s: "roundDouble (117 + 78) = 195"
    by (subst roundDouble_eval[of "7"]) (simp_all add: roundEven_def Let_def)
  show ?thesis by (simp only: blend_unfold a b s)
qed

lemma blend_100: "blend 100 100 = 100"
proof -
  have a: "roundDouble (100 * (5404319552844595 / 9007199254740992)) = 60"
    by (subst roundDouble_eval[of "5"]) (simp_all add: roundEven_def Let_def)
  have b: "roundDouble (100 * (3602879701896397 / 9007199254740992)) = 40"
    by (subst roundDouble_eval[of "5"]) (simp_all add: roundEven_def Let_def)
  have s: "roundDouble (60 + 40) = 100"
    by (subst roundDouble_eval[of "6"]) (simp_all add: roundEven_def Let_def)
  show ?thesis by (simp only: blend_unfold a b s)
qed

lemma blend_40: "blend 40 40 = 40"
proof -
  have a: "roundDouble (40 * (5404319552844595 / 9007199254740992)) = 24"
    by (subst roundDouble_eval[of "4"]) (simp_all add: roundEven_def Let_def)
  have b: "roundDouble (40 * (3602879701896397 / 9007199254740992)) = 16"
    by (subst roundDouble_eval[of "4"]) (simp_all add: roundEven_def Let_def)
  have s: "roundDouble (24 + 16) = 40"
    by (subst roundDouble_eval[of "5"]) (simp_all add: roundEven_def Let_def)
  show ?thesis by (simp only: blend_unfold a b s)
qed








lemma finalHeight_example:
  assumes "img_width img = 200" and "img_height img = 80" and "finalWidth img l r = 100"
  shows "finalHeight img l r = 40"
proof -
  have q: "roundDouble (80 / 200) = 3602879701896397 / 9007199254740992"
    by (subst roundDouble_eval[of "-2"]) (simp_all add: roundEven_def Let_def)
  have h: "roundDouble (100 * (3602879701896397 / 9007199254740992)) = 40"
    by (subst roundDouble_eval[of "5"]) (simp_all add: roundEven_def Let_def)
  show ?thesis by (simp only: finalHeight_def nativeRatio_def assms q h)
qed



subsection \<open>The placement of one valid frame\<close>

lemma solvePlacement_bootstrap:
  "pos_x prev = 0 \<Longrightarrow>
   solvePlacement img prev l r = smoothed (rawPlacement img l r) (rawPlacement img l r)"
  by (simp add: solvePlacement_def anchor_def Let_def)


lemma drawGlassesOnFace_valid:
  assumes "glassesImg a = Some img" "complete img"
    and "extractEyeCenters lm = Inr (Some (l, r))"
  shows "drawGlassesOnFace a lm =
    Inr (a\<lparr>lastGlassesPosition := solvePlacement img (lastGlassesPosition a) l r\<rparr>,
         drawOps img (solvePlacement img (lastGlassesPosition a) l r))"
  using assms by (simp add: drawGlassesOnFace_def Let_def)

subsection \<open>Meshes with a missing landmark\<close>

lemma eyeCenter_Undefined_top: "eyeCenter i ou Undefined = Inl TypeError"
  by (cases i; cases ou) simp_all

lemma eyeCenter_error: "eyeCenter i ou t = Inl e \<Longrightarrow> e = TypeError"
  by (cases i; cases ou; cases t) simp_all

lemma extract_missing:
  assumes "i \<in> {133, 362, 33, 263, 159, 386}" "landmarkAt lm i = Undefined"
  shows "extractEyeCenters lm = Inr None \<or> extractEyeCenters lm = Inl TypeError"
  using assms
  by (auto simp: extractEyeCenters_def Let_def eyeCenter_Undefined_top
      split: sum.splits dest: eyeCenter_error)

lemma drawGlassesOnFace_missing:
  assumes "i \<in> {133, 362, 33, 263, 159, 386}" "landmarkAt lm i = Undefined"
  shows "drawGlassesOnFace a lm = Inr (a, []) \<or> drawGlassesOnFace a lm = Inl TypeError"
  using extract_missing[OF assms]
  by (auto simp: drawGlassesOnFace_def split: option.splits)

lemma detectFaces_missing:
  assumes "i \<in> {133, 362, 33, 263, 159, 386}" "landmarkAt lm i = Undefined"
    and "faces fr = Inr [Some lm]"
  shows "lastGlassesPosition (fst (detectFaces a fr)) = lastGlassesPosition a"
    and "set (snd (detectFaces a fr)) \<subseteq> {ClearRect 0 0 (canvasWidth fr) (canvasHeight fr)}"
  using drawGlassesOnFace_missing[OF assms(1,2), of a] assms(3)
  by (auto simp: detectFaces_def tryBlock_def split: option.splits)

subsection \<open>A tick on a single valid face\<close>

lemma forEachFace_single_valid:
  assumes "length lm > 168" "glassesImg a = Some img" "complete img"
    and "extractEyeCenters lm = Inr (Some (l, r))"
  shows "forEachFace a [Some lm] =
    (a\<lparr>lastGlassesPosition := solvePlacement img (lastGlassesPosition a) l r\<rparr>,
     drawOps img (solvePlacement img (lastGlassesPosition a) l r), None)"
  using assms(1) by (simp add: drawGlassesOnFace_valid[OF assms(2-4)])

lemma detectFaces_valid:
  assumes "webcamActive a" "model a" "surfaceReady fr" "faces fr = Inr [Some lm]"
    and "length lm > 168" "glassesImg a = Some img" "complete img"
    and "extractEyeCenters lm = Inr (Some (l, r))"
  shows "detectFaces a fr =
    (a\<lparr>lastGlassesPosition := solvePlacement img (lastGlassesPosition a) l r,
       faceCount := 1, animationId := Some (nextId fr)\<rparr>,
     ClearRect 0 0 (canvasWidth fr) (canvasHeight fr)
       # drawOps img (solvePlacement img (lastGlassesPosition a) l r))"
  using assms(1-4)
  by (simp add: detectFaces_def tryBlock_def forEachFace_single_valid[OF assms(5-8)]
      del: forEachFace.simps)




subsection \<open>Evaluation of the concrete inputs\<close>

lemma exampleLandmarks_length: "length exampleLandmarks = 468"
  by (simp add: exampleLandmarks_def)

lemma exampleLandmarks_eyes:
  "extractEyeCenters exampleLandmarks = Inr (Some ((100, 200), (140, 200)))"
  by (simp add: extractEyeCenters_def exampleLandmarks_def landmarkAt_def)



lemma eyeDistance_example: "eyeDistance (100, 200) (140, 200) = 40"
  by (simp add: eyeDistance_def)

lemma rawAngle_example: "rawAngle (100, 200) (140, 200) = 0"
  by (simp add: rawAngle_def atan2_def)

lemma exampleApp_fields:
  "glassesImg exampleApp = Some exampleImage" "webcamActive exampleApp" "model exampleApp"
  "lastGlassesPosition exampleApp = sentinel"
  by (simp_all add: exampleApp_def constructor_def updateStatus_def loadGlassesImage_def)

lemma rawPlacement_example:
  "img_width img = 200 \<Longrightarrow> img_height img = 80 \<Longrightarrow>
   rawPlacement img (100, 200) (140, 200) =
     \<lparr>pos_x = 120, pos_y = 195, width = 100, height = 40, angle = 0\<rparr>"
proof -
  assume w: "img_width img = 200" and h: "img_height img = 80"
  have fw: "finalWidth img (100, 200) (140, 200) = 100"
    using w
    by (simp add: finalWidth_def minWidth_def maxWidth_def glassesScale_def eyeDistance_example)
  show ?thesis
    by (simp add: rawPlacement_def glassesX_def glassesY_def fw finalHeight_example[OF w h fw]
        faceAngle_def rawAngle_example)
qed

lemma rawPlacement_exampleImage:
  "rawPlacement exampleImage (100, 200) (140, 200) =
     \<lparr>pos_x = 120, pos_y = 195, width = 100, height = 40, angle = 0\<rparr>"
  by (rule rawPlacement_example) (simp_all add: exampleImage_def)

lemma smoothed_example:
  "smoothed \<lparr>pos_x = 120, pos_y = 195, width = 100, height = 40, angle = 0\<rparr>
     \<lparr>pos_x = 120, pos_y = 195, width = 100, height = 40, angle = 0\<rparr>
   = \<lparr>pos_x = 120, pos_y = 195, width = 100, height = 40, angle = 0\<rparr>"
  by (simp add: smoothed_def blend_120 blend_195 blend_100 blend_40 blend_zero)

lemma eyeDistance_nonneg: "0 \<le> eyeDistance l r"
  by (simp add: eyeDistance_def)

lemma pi_half_gt_tenth: "(0.1::real) < pi / 2"
  using pi_ge_two by simp

lemma extract_nose_independent:
  assumes "length lm' = length lm"
    and "\<forall>i. i \<noteq> 1 \<and> i \<noteq> 168 \<longrightarrow> lm' ! i = lm ! i"
  shows "extractEyeCenters lm' = extractEyeCenters lm"
proof -
  have "landmarkAt lm' i = landmarkAt lm i" if "i \<noteq> 1" "i \<noteq> 168" for i
    using assms that by (simp add: landmarkAt_def)
  then show ?thesis by (simp add: extractEyeCenters_def)
qed

lemma detectFaces_exampleApp:
  assumes "length lm > 168" and "extractEyeCenters lm = Inr (Some (l, r))"
  shows "detectFaces exampleApp (exampleFrame lm) =
    (exampleApp\<lparr>lastGlassesPosition :=
         smoothed (rawPlacement exampleImage l r) (rawPlacement exampleImage l r),
       faceCount := 1, animationId := Some 1\<rparr>,
     ClearRect 0 0 640 480
       # drawOps exampleImage
           (smoothed (rawPlacement exampleImage l r) (rawPlacement exampleImage l r)))"
proof -
  have "detectFaces exampleApp (exampleFrame lm) =
     (exampleApp\<lparr>lastGlassesPosition :=
          solvePlacement exampleImage (lastGlassesPosition exampleApp) l r,
        faceCount := 1, animationId := Some (nextId (exampleFrame lm))\<rparr>,
      ClearRect 0 0 (canvasWidth (exampleFrame lm)) (canvasHeight (exampleFrame lm))
        # drawOps exampleImage
            (solvePlacement exampleImage (lastGlassesPosition exampleApp) l r))"
    by (rule detectFaces_valid[OF exampleApp_fields(2,3) _ _ assms(1) exampleApp_fields(1) _
          assms(2)])
      (simp_all add: exampleFrame_def exampleImage_def)
  then show ?thesis
    by (simp add: exampleApp_fields(4) sentinel_def solvePlacement_bootstrap exampleFrame_def)
qed



lemma afterExampleFrame_eq:
  "afterExampleFrame =
     exampleApp\<lparr>lastGlassesPosition :=
         \<lparr>pos_x = 120, pos_y = 195, width = 100, height = 40, angle = 0\<rparr>,
       faceCount := 1, animationId := Some 1\<rparr>"
  by (simp add: afterExampleFrame_def exampleLandmarks_length rawPlacement_exampleImage
      smoothed_example detectFaces_exampleApp[OF _ exampleLandmarks_eyes])


subsection \<open>The animation handle does not influence a tick\<close>

lemma stopFaceDetection_fields:
  "lastGlassesPosition (stopFaceDetection a) = lastGlassesPosition a"
  "webcamActive (stopFaceDetection a) = webcamActive a"
  "model (stopFaceDetection a) = model a"
  "glassesImg (stopFaceDetection a) = glassesImg a"
  by (simp_all add: stopFaceDetection_def split: option.splits)

lemma drawGlassesOnFace_animationId:
  "drawGlassesOnFace (a\<lparr>animationId := v\<rparr>) lm =
     map_sum id (\<lambda>(a', ops). (a'\<lparr>animationId := v\<rparr>, ops)) (drawGlassesOnFace a lm)"
  by (simp add: drawGlassesOnFace_def Let_def split: option.splits sum.splits)

lemma forEachFace_animationId:
  "forEachFace (a\<lparr>animationId := v\<rparr>) fs =
     (case forEachFace a fs of (a', ops, e) \<Rightarrow> (a'\<lparr>animationId := v\<rparr>, ops, e))"
proof (induction fs arbitrary: a)
  case Nil
  then show ?case by simp
next
  case (Cons f fs)
  show ?case
  proof (cases f)
    case None
    then show ?thesis using Cons.IH by simp
  next
    case (Some lm)
    show ?thesis
    proof (cases "drawGlassesOnFace a lm")
      case (Inl e)
      then show ?thesis using Some Cons.IH by (simp add: drawGlassesOnFace_animationId)
    next
      case (Inr res)
      then show ?thesis using Some Cons.IH
        by (cases res) (simp add: drawGlassesOnFace_animationId split: prod.splits)
    qed
  qed
qed

lemma detectFaces_animationId:
  "lastGlassesPosition (fst (detectFaces (a\<lparr>animationId := v\<rparr>) fr))
     = lastGlassesPosition (fst (detectFaces a fr))"
  "snd (detectFaces (a\<lparr>animationId := v\<rparr>) fr) = snd (detectFaces a fr)"
  by (simp_all add: detectFaces_def tryBlock_def forEachFace_animationId
      split: sum.splits prod.splits option.splits)






subsection \<open>Evaluation of the further inputs\<close>

lemma edgeLandmarks_length: "length edgeLandmarks = 468"
  by (simp add: edgeLandmarks_def)











section \<open>Rejection of frames with missing landmarks\<close>

text \<open>
  The guard of \<^verbatim>\<open>drawGlassesOnFace\<close> tests the four eye corners only. When a corner is
  missing the function returns early; when only an eye-top landmark is missing, reading its
  coordinate throws, and the \<^verbatim>\<open>catch\<close> of \<^verbatim>\<open>detectFaces\<close> swallows the exception:
\<close>

lemma missing_top_landmark_throws:
  "drawGlassesOnFace exampleApp (exampleLandmarks[159 := Undefined]) = Inl TypeError"
  by (simp add: drawGlassesOnFace_def exampleApp_fields(1) exampleImage_def
      extractEyeCenters_def exampleLandmarks_def landmarkAt_def)

text \<open>
  Claim C1. If one of the landmarks 133, 362, 33, 263, 159, 386 of a mesh of more than 168
  entries is \<^verbatim>\<open>undefined\<close>, then \<^verbatim>\<open>drawGlassesOnFace\<close> either returns without drawing
  and without changing the application, or throws a TypeError; the tick that processes this
  mesh leaves \<^verbatim>\<open>lastGlassesPosition\<close> as it was and issues no canvas call besides the
  clearing of the frame. A mesh of length 169 is rejected by the early return.
\<close>

theorem missing_landmark_rejected:
  assumes "i \<in> {133, 362, 33, 263, 159, 386}" and "landmarkAt lm i = Undefined"
    and "length lm > 168" and "faces fr = Inr [Some lm]"
  shows "(drawGlassesOnFace a lm = Inr (a, []) \<or> drawGlassesOnFace a lm = Inl TypeError)
    \<and> lastGlassesPosition (fst (detectFaces a fr)) = lastGlassesPosition a
    \<and> set (snd (detectFaces a fr)) \<subseteq> {ClearRect 0 0 (canvasWidth fr) (canvasHeight fr)}
    \<and> (length lm = 169 \<longrightarrow> drawGlassesOnFace a lm = Inr (a, []))"
proof -
  have "drawGlassesOnFace a lm = Inr (a, [])" if "length lm = 169"
  proof -
    from that have "landmarkAt lm 362 = Undefined" by (simp add: landmarkAt_def)
    then have "extractEyeCenters lm = Inr None" by (simp add: extractEyeCenters_def)
    then show ?thesis by (simp add: drawGlassesOnFace_def split: option.splits)
  qed
  with drawGlassesOnFace_missing[OF assms(1,2), of a] detectFaces_missing[OF assms(1,2,4), of a]
  show ?thesis by blast
qed

theorem missing_landmark_rejected_witness:
  "(159::nat) \<in> {133, 362, 33, 263, 159, 386}
   \<and> landmarkAt sparseLandmarks 159 = Undefined
   \<and> length sparseLandmarks = 169
   \<and> drawGlassesOnFace exampleApp sparseLandmarks = Inr (exampleApp, [])
   \<and> lastGlassesPosition (fst (detectFaces exampleApp (exampleFrame sparseLandmarks)))
       = lastGlassesPosition exampleApp
   \<and> set (snd (detectFaces exampleApp (exampleFrame sparseLandmarks)))
       \<subseteq> {ClearRect 0 0 640 480}
   \<and> landmarkAt (exampleLandmarks[159 := Undefined]) 159 = Undefined
   \<and> length (exampleLandmarks[159 := Undefined]) = 468
   \<and> lastGlassesPosition
        (fst (detectFaces afterExampleFrame (exampleFrame (exampleLandmarks[159 := Undefined]))))
       = \<lparr>pos_x = 120, pos_y = 195, width = 100, height = 40, angle = 0\<rparr>
   \<and> set (snd (detectFaces afterExampleFrame
                  (exampleFrame (exampleLandmarks[159 := Undefined]))))
       \<subseteq> {ClearRect 0 0 640 480}"
proof -
  have 1: "(159::nat) \<in> {133, 362, 33, 263, 159, 386}" by simp
  have 2: "landmarkAt sparseLandmarks 159 = Undefined"
    by (simp add: sparseLandmarks_def landmarkAt_def)
  have 3: "length sparseLandmarks > 168" by (simp add: sparseLandmarks_def)
  have 4: "faces (exampleFrame sparseLandmarks) = Inr [Some sparseLandmarks]"
    by (simp add: exampleFrame_def)
  have 5: "length sparseLandmarks = 169" by (simp add: sparseLandmarks_def)
  let ?lm = "exampleLandmarks[159 := Undefined]"
  have 6: "landmarkAt ?lm 159 = Undefined"
    by (simp add: landmarkAt_def exampleLandmarks_length)
  have 7: "length ?lm = 468" by (simp add: exampleLandmarks_length)
  then have 8: "length ?lm > 168" by simp
  have 9: "faces (exampleFrame ?lm) = Inr [Some ?lm]" by (simp add: exampleFrame_def)
  have p: "lastGlassesPosition afterExampleFrame
      = \<lparr>pos_x = 120, pos_y = 195, width = 100, height = 40, angle = 0\<rparr>"
    by (simp add: afterExampleFrame_eq)
  show ?thesis
    using missing_landmark_rejected[OF 1 2 3 4, of exampleApp]
      missing_landmark_rejected[OF 1 6 8 9, of afterExampleFrame] 1 2 5 6 7 p
    by (simp add: exampleFrame_def)
qed

section \<open>The bootstrap frame\<close>




section \<open>Style switch, stop and start\<close>

text \<open>
  Claim C3, as stated, asks that stopping and starting the detection loop restore the
  sentinel placement. It does not: after a frame has stored the placement
  (120, 195, 100, 40, 0), a stop followed by a start on a frame without faces still holds
  that placement.
\<close>

theorem placement_survives_stop_start_counterexample:
  "lastGlassesPosition (stopFaceDetection afterExampleFrame)
     = \<lparr>pos_x = 120, pos_y = 195, width = 100, height = 40, angle = 0\<rparr>
   \<and> lastGlassesPosition
        (fst (startFaceDetection (stopFaceDetection afterExampleFrame) noFaceFrame))
     = \<lparr>pos_x = 120, pos_y = 195, width = 100, height = 40, angle = 0\<rparr>
   \<and> \<lparr>pos_x = 120, pos_y = 195, width = 100, height = 40, angle = 0\<rparr> \<noteq> sentinel"
  by (simp add: afterExampleFrame_eq stopFaceDetection_def startFaceDetection_def
      detectFaces_def tryBlock_def updateStatus_def exampleApp_fields noFaceFrame_def
      sentinel_def)

text \<open>
  Claim C3, amended. \<^verbatim>\<open>selectGlasses\<close> leaves \<^verbatim>\<open>lastGlassesPosition\<close> unchanged, and so
  does \<^verbatim>\<open>stopFaceDetection\<close>; a \<^verbatim>\<open>startFaceDetection\<close> after a stop processes its frame
  from the stored placement exactly as a \<^verbatim>\<open>detectFaces\<close> tick of the uninterrupted loop
  would. The constructor gives the sentinel.
\<close>

theorem placement_kept_by_select_stop_start:
  "lastGlassesPosition (selectGlasses newImage el a) = lastGlassesPosition a
   \<and> lastGlassesPosition (stopFaceDetection a) = lastGlassesPosition a
   \<and> lastGlassesPosition (fst (startFaceDetection (stopFaceDetection a) fr))
       = lastGlassesPosition (fst (detectFaces a fr))
   \<and> lastGlassesPosition (constructor newImage) = sentinel"
proof -
  have 1: "lastGlassesPosition (selectGlasses newImage el a) = lastGlassesPosition a"
    by (simp add: selectGlasses_def loadGlassesImage_def updateStatus_def)
  have 3: "lastGlassesPosition (fst (startFaceDetection b fr))
       = lastGlassesPosition (fst (detectFaces b fr))" for b
    by (simp add: startFaceDetection_def detectFaces_def updateStatus_def split: prod.splits)
  have 4: "lastGlassesPosition (fst (detectFaces (stopFaceDetection a) fr))
       = lastGlassesPosition (fst (detectFaces a fr))"
    by (simp add: stopFaceDetection_def detectFaces_animationId split: option.splits)
  have 5: "lastGlassesPosition (constructor newImage) = sentinel"
    by (simp add: constructor_def updateStatus_def loadGlassesImage_def)
  show ?thesis using 1 3 4 5 by (simp add: stopFaceDetection_fields)
qed

theorem placement_kept_by_select_stop_start_witness:
  "lastGlassesPosition
      (selectGlasses (\<lambda>s. exampleImage\<lparr>src := s\<rparr>) exampleElement afterExampleFrame)
     = \<lparr>pos_x = 120, pos_y = 195, width = 100, height = 40, angle = 0\<rparr>
   \<and> lastGlassesPosition (stopFaceDetection afterExampleFrame)
     = \<lparr>pos_x = 120, pos_y = 195, width = 100, height = 40, angle = 0\<rparr>
   \<and> lastGlassesPosition
        (fst (startFaceDetection (stopFaceDetection afterExampleFrame)
               (exampleFrame exampleLandmarks)))
     = lastGlassesPosition (fst (detectFaces afterExampleFrame (exampleFrame exampleLandmarks)))
   \<and> animationId (stopFaceDetection afterExampleFrame) = None
   \<and> animationId afterExampleFrame = Some 1"
proof -
  have p: "lastGlassesPosition afterExampleFrame
      = \<lparr>pos_x = 120, pos_y = 195, width = 100, height = 40, angle = 0\<rparr>"
    by (simp add: afterExampleFrame_eq)
  have i: "animationId afterExampleFrame = Some 1"
    by (simp add: afterExampleFrame_eq)
  have j: "animationId (stopFaceDetection afterExampleFrame) = None"
    by (simp add: stopFaceDetection_def i)
  show ?thesis
    using placement_kept_by_select_stop_start[of "\<lambda>s. exampleImage\<lparr>src := s\<rparr>"
        exampleElement afterExampleFrame "exampleFrame exampleLandmarks"] p i j
    by simp
qed

section \<open>Exponential smoothing\<close>




section \<open>Aspect ratio\<close>




section \<open>Width bounds\<close>

text \<open>
  Claim C6. The raw width lies between 1.8 and 2.5 times the eye distance, whatever the
  overlay image's pixel size.
\<close>

theorem raw_width_within_bounds:
  "1.8 * eyeDistance l r \<le> width (rawPlacement img l r)
   \<and> width (rawPlacement img l r) \<le> 2.5 * eyeDistance l r"
  using eyeDistance_nonneg[of l r]
  by (simp add: rawPlacement_def finalWidth_def minWidth_def maxWidth_def max_def min_def)

theorem raw_width_within_bounds_witness:
  "eyeDistance (100, 200) (140, 200) = 40
   \<and> 1.8 * 40 \<le> width (rawPlacement (exampleImage\<lparr>img_width := 1000\<rparr>) (100, 200) (140, 200))
   \<and> width (rawPlacement (exampleImage\<lparr>img_width := 1000\<rparr>) (100, 200) (140, 200)) \<le> 2.5 * 40
   \<and> 1.8 * 40 \<le> width (rawPlacement (exampleImage\<lparr>img_width := 1\<rparr>) (100, 200) (140, 200))
   \<and> width (rawPlacement (exampleImage\<lparr>img_width := 1\<rparr>) (100, 200) (140, 200)) \<le> 2.5 * 40"
  using raw_width_within_bounds[of "(100, 200)" "(140, 200)" "exampleImage\<lparr>img_width := 1000\<rparr>"]
    raw_width_within_bounds[of "(100, 200)" "(140, 200)" "exampleImage\<lparr>img_width := 1\<rparr>"]
  by (simp add: eyeDistance_example)

section \<open>Angle clamp\<close>

text \<open>
  Claim C7. A raw \<^verbatim>\<open>atan2\<close> angle above 0.1 gives the raw placement the angle 0.1, one below
  -0.1 gives it -0.1, and an angle within the range is used unchanged.
\<close>

theorem angle_hard_clamped:
  "(0.1 < rawAngle l r \<longrightarrow> angle (rawPlacement img l r) = 0.1)
   \<and> (rawAngle l r < - 0.1 \<longrightarrow> angle (rawPlacement img l r) = - 0.1)
   \<and> (- 0.1 \<le> rawAngle l r \<and> rawAngle l r \<le> 0.1
        \<longrightarrow> angle (rawPlacement img l r) = rawAngle l r)"
  by (simp add: rawPlacement_def faceAngle_def max_def min_def)

theorem angle_hard_clamped_witness:
  "0.1 < rawAngle (0, 180) (0, 220)
   \<and> angle (rawPlacement exampleImage (0, 180) (0, 220)) = 0.1
   \<and> rawAngle (0, 220) (0, 180) < - 0.1
   \<and> angle (rawPlacement exampleImage (0, 220) (0, 180)) = - 0.1
   \<and> - 0.1 \<le> rawAngle (100, 200) (140, 200) \<and> rawAngle (100, 200) (140, 200) \<le> 0.1
   \<and> angle (rawPlacement exampleImage (100, 200) (140, 200)) = rawAngle (100, 200) (140, 200)"
proof -
  have up: "0.1 < rawAngle (0, 180) (0, 220)"
    using pi_half_gt_tenth by (simp add: rawAngle_def atan2_def)
  have down: "rawAngle (0, 220) (0, 180) < - 0.1"
    using pi_half_gt_tenth by (simp add: rawAngle_def atan2_def)
  have mid: "- 0.1 \<le> rawAngle (100, 200) (140, 200) \<and> rawAngle (100, 200) (140, 200) \<le> 0.1"
    by (simp add: rawAngle_example)
  show ?thesis
    using angle_hard_clamped[of "(0, 180)" "(0, 220)" exampleImage]
      angle_hard_clamped[of "(0, 220)" "(0, 180)" exampleImage]
      angle_hard_clamped[of "(100, 200)" "(140, 200)" exampleImage]
      up down mid
    by blast
qed

section \<open>The nose landmarks\<close>

text \<open>
  Claim C8. Two meshes of the same length that agree at every index other than 1 and 168
  give the same result of \<^verbatim>\<open>drawGlassesOnFace\<close>: the same stored placement, the same canvas
  calls, the same exception, also as the single face of a frame.
\<close>

theorem nose_landmarks_unused:
  assumes "length lm' = length lm"
    and "\<forall>i. i \<noteq> 1 \<and> i \<noteq> 168 \<longrightarrow> lm' ! i = lm ! i"
  shows "drawGlassesOnFace a lm' = drawGlassesOnFace a lm
    \<and> forEachFace a [Some lm'] = forEachFace a [Some lm]"
proof -
  have "drawGlassesOnFace a lm' = drawGlassesOnFace a lm" for a
    unfolding drawGlassesOnFace_def extract_nose_independent[OF assms] ..
  then show ?thesis using assms(1) by simp
qed

theorem nose_landmarks_unused_witness:
  "length (exampleLandmarks[1 := Point 7 9, 168 := Point 11 13]) = length exampleLandmarks
   \<and> exampleLandmarks[1 := Point 7 9, 168 := Point 11 13] ! 1 \<noteq> exampleLandmarks ! 1
   \<and> exampleLandmarks[1 := Point 7 9, 168 := Point 11 13] ! 168 \<noteq> exampleLandmarks ! 168
   \<and> exampleLandmarks[1 := Point 7 9, 168 := Point 11 13] ! 159 = exampleLandmarks ! 159
   \<and> drawGlassesOnFace exampleApp (exampleLandmarks[1 := Point 7 9, 168 := Point 11 13])
       = drawGlassesOnFace exampleApp exampleLandmarks"
proof -
  let ?lm' = "exampleLandmarks[1 := Point 7 9, 168 := Point 11 13]"
  have len: "length ?lm' = length exampleLandmarks" by simp
  have same: "\<forall>i. i \<noteq> 1 \<and> i \<noteq> 168 \<longrightarrow> ?lm' ! i = exampleLandmarks ! i" by simp
  have d1: "?lm' ! 1 \<noteq> exampleLandmarks ! 1"
    by (simp add: exampleLandmarks_def)
  have d2: "?lm' ! 168 \<noteq> exampleLandmarks ! 168"
    by (simp add: exampleLandmarks_def)
  have e: "?lm' ! 159 = exampleLandmarks ! 159" by simp
  show ?thesis
    using nose_landmarks_unused[OF len same, of exampleApp] d1 d2 e by simp
qed

section \<open>The worked example\<close>

text \<open>
  Claim C9. With the eye centres (100, 200) and (140, 200) and an overlay image of 200 by 80
  pixels, the eye distance is 40, the raw angle 0, the candidate width 100, the bounds 72
  and 100, the final width 100, the height 40 and the raw centre (120, 195); on a frame
  that starts with a stored \<^verbatim>\<open>x\<close> of 0 the stored placement becomes (120, 195, 100, 40, 0).
\<close>

theorem concrete_example:
  assumes "extractEyeCenters lm = Inr (Some ((100, 200), (140, 200)))"
    and "glassesImg a = Some img" and "complete img"
    and "img_width img = 200" and "img_height img = 80"
    and "pos_x (lastGlassesPosition a) = 0"
  shows "eyeDistance (100, 200) (140, 200) = 40
    \<and> rawAngle (100, 200) (140, 200) = 0
    \<and> img_width img * glassesScale (100, 200) (140, 200) = 100
    \<and> minWidth (100, 200) (140, 200) = 72
    \<and> maxWidth (100, 200) (140, 200) = 100
    \<and> finalWidth img (100, 200) (140, 200) = 100
    \<and> finalHeight img (100, 200) (140, 200) = 40
    \<and> glassesX (100, 200) (140, 200) = 120
    \<and> glassesY (100, 200) (140, 200) = 195
    \<and> drawGlassesOnFace a lm =
          Inr (a\<lparr>lastGlassesPosition :=
                   \<lparr>pos_x = 120, pos_y = 195, width = 100, height = 40, angle = 0\<rparr>\<rparr>,
               drawOps img \<lparr>pos_x = 120, pos_y = 195, width = 100, height = 40, angle = 0\<rparr>)"
proof -
  have w: "finalWidth img (100, 200) (140, 200) = 100"
    using assms(4)
    by (simp add: finalWidth_def minWidth_def maxWidth_def glassesScale_def eyeDistance_example)
  have "drawGlassesOnFace a lm =
      Inr (a\<lparr>lastGlassesPosition :=
               \<lparr>pos_x = 120, pos_y = 195, width = 100, height = 40, angle = 0\<rparr>\<rparr>,
           drawOps img \<lparr>pos_x = 120, pos_y = 195, width = 100, height = 40, angle = 0\<rparr>)"
    using assms(6)
    by (simp add: drawGlassesOnFace_valid[OF assms(2,3,1)] solvePlacement_bootstrap
        rawPlacement_example[OF assms(4,5)] smoothed_example)
  then show ?thesis
    using assms(4,5) w
    by (simp add: eyeDistance_example rawAngle_example glassesScale_def minWidth_def
        maxWidth_def finalHeight_example[OF assms(4,5) w] glassesX_def glassesY_def)
qed

theorem concrete_example_witness:
  "extractEyeCenters exampleLandmarks = Inr (Some ((100, 200), (140, 200)))
   \<and> glassesImg exampleApp = Some exampleImage \<and> complete exampleImage
   \<and> img_width exampleImage = 200 \<and> img_height exampleImage = 80
   \<and> pos_x (lastGlassesPosition exampleApp) = 0
   \<and> drawGlassesOnFace exampleApp exampleLandmarks =
          Inr (exampleApp\<lparr>lastGlassesPosition :=
                   \<lparr>pos_x = 120, pos_y = 195, width = 100, height = 40, angle = 0\<rparr>\<rparr>,
               [Save, GlobalAlpha 0.9, GlobalCompositeOperation ''source-over'',
                Translate 120 195, Rotate 0,
                DrawImage exampleImage (- 50) (- 20) 100 40, Restore])"
proof -
  have c: "complete exampleImage" and w: "img_width exampleImage = 200"
    and h: "img_height exampleImage = 80"
    by (simp_all add: exampleImage_def)
  have z: "pos_x (lastGlassesPosition exampleApp) = 0"
    by (simp add: exampleApp_fields sentinel_def)
  show ?thesis
    using concrete_example[OF exampleLandmarks_eyes exampleApp_fields(1) c w h z]
      exampleLandmarks_eyes exampleApp_fields(1) c w h z
    by (simp add: drawOps_def)
qed

section \<open>The sentinel test\<close>



end
